theory Spec2Isabelle
  imports Main "HOL-Library.Sublist"
begin

section \<open>Conversational Unit Converter (uc2.py)\<close>

text \<open>
  The program is one Streamlit script. Streamlit runs it from top to bottom on every user
  interaction; what survives between two runs is \<^verbatim>\<open>st.session_state\<close>. The embedding
  therefore has one function per block of the script, each taking the session state and
  the widget inputs of the run and returning the session state the run leaves behind.
  A Python exception that escapes a block is a value \<open>Inl e\<close>.
\<close>

subsection \<open>Python strings\<close>

text \<open>
  A Python \<^verbatim>\<open>str\<close> is a sequence of Unicode code points, and \<^verbatim>\<open>len\<close> and slicing count
  code points. The unit labels and the history arrow are not ASCII, so a string is a list
  of code points; \<open>ascii\<close> embeds an ASCII literal.
\<close>

type_synonym codepoint = nat
type_synonym pystr = "codepoint list"

definition ascii :: "string \<Rightarrow> pystr" where
  "ascii s = map of_char s"

text \<open>The non-ASCII characters of the source: U+00B0, U+00B2, U+00B3 and U+2192.\<close>

definition degree_sign :: pystr where "degree_sign = [0xB0]"
definition superscript_two :: pystr where "superscript_two = [0xB2]"
definition superscript_three :: pystr where "superscript_three = [0xB3]"
definition rightwards_arrow :: pystr where "rightwards_arrow = [0x2192]"

datatype py_error = KeyError | IndexError | ValueError | AttributeError

subsection \<open>The unit table (lines 29-40)\<close>

text \<open>A \<^verbatim>\<open>dict\<close> literal with distinct keys, in insertion order.\<close>

definition unit_categories :: "(pystr \<times> pystr list) list" where
  "unit_categories =
   [(ascii ''Length'',
       [ascii ''mm'', ascii ''cm'', ascii ''m'', ascii ''km'',
        ascii ''in'', ascii ''ft'', ascii ''yd'', ascii ''mi'']),
    (ascii ''Weight/Mass'',
       [ascii ''mg'', ascii ''g'', ascii ''kg'', ascii ''oz'', ascii ''lb'', ascii ''ton'']),
    (ascii ''Volume'',
       [ascii ''ml'', ascii ''L'', ascii ''gal'', ascii ''pt'', ascii ''qt'', ascii ''fl oz'',
        ascii ''cm'' @ superscript_three, ascii ''m'' @ superscript_three]),
    (ascii ''Temperature'',
       [degree_sign @ ascii ''C'', degree_sign @ ascii ''F'', ascii ''K'']),
    (ascii ''Time'',
       [ascii ''sec'', ascii ''min'', ascii ''hr'', ascii ''day'',
        ascii ''week'', ascii ''month'', ascii ''year'']),
    (ascii ''Area'',
       [ascii ''mm'' @ superscript_two, ascii ''cm'' @ superscript_two,
        ascii ''m'' @ superscript_two, ascii ''km'' @ superscript_two,
        ascii ''in'' @ superscript_two, ascii ''ft'' @ superscript_two,
        ascii ''acre'', ascii ''hectare'']),
    (ascii ''Speed'',
       [ascii ''m/s'', ascii ''km/h'', ascii ''mph'', ascii ''knot'']),
    (ascii ''Pressure'',
       [ascii ''Pa'', ascii ''kPa'', ascii ''bar'', ascii ''psi'', ascii ''atm'']),
    (ascii ''Energy'',
       [ascii ''J'', ascii ''cal'', ascii ''kcal'', ascii ''kWh'', ascii ''eV'']),
    (ascii ''Data'',
       [ascii ''bit'', ascii ''byte'', ascii ''KB'', ascii ''MB'', ascii ''GB'', ascii ''TB''])]"

text \<open>\<^verbatim>\<open>unit_categories[selected_category]\<close>: a missing key raises \<^verbatim>\<open>KeyError\<close>.\<close>

definition units_of :: "pystr \<Rightarrow> py_error + pystr list" where
  "units_of selected_category =
     (case map_of unit_categories selected_category of
        None \<Rightarrow> Inl KeyError
      | Some units \<Rightarrow> Inr units)"

subsection \<open>Session state\<close>

text \<open>
  The four attributes the script keeps in \<^verbatim>\<open>st.session_state\<close>. \<open>None\<close> is an attribute
  that has not been set yet (\<^verbatim>\<open>'from_unit' not in st.session_state\<close>).
\<close>

record session_state =
  st_from_unit :: "pystr option"
  st_to_unit :: "pystr option"
  st_current_category :: "pystr option"
  st_conversion_history :: "pystr list option"

definition fresh_session :: session_state where
  "fresh_session =
     \<lparr>st_from_unit = None, st_to_unit = None,
      st_current_category = None, st_conversion_history = None\<rparr>"

subsection \<open>Widgets\<close>

text \<open>
  \<^verbatim>\<open>st.selectbox(label, options, index)\<close> belongs to Streamlit. What the script relies on is
  that it returns the entry the user picked in this run, and \<^verbatim>\<open>options[index]\<close> as long as
  the user has not picked one. The pick is an input of the run.
\<close>

definition selectbox :: "'a list \<Rightarrow> nat \<Rightarrow> 'a option \<Rightarrow> 'a" where
  "selectbox options index pick =
     (case pick of None \<Rightarrow> options ! index | Some choice \<Rightarrow> choice)"

text \<open>\<^verbatim>\<open>xs.index(x)\<close>: the first position of \<open>x\<close>, \<^verbatim>\<open>ValueError\<close> when it is absent.\<close>

fun list_index :: "'a list \<Rightarrow> 'a \<Rightarrow> py_error + nat" where
  "list_index [] x = Inl ValueError"
| "list_index (y # ys) x =
     (if y = x then Inr 0
      else (case list_index ys x of Inl e \<Rightarrow> Inl e | Inr i \<Rightarrow> Inr (Suc i)))"

subsection \<open>Selection state (lines 49-90)\<close>

text \<open>
  Lines 50-53. \<^verbatim>\<open>st.session_state.get('current_category') != selected_category\<close> holds when
  the attribute is absent, since \<^verbatim>\<open>None\<close> differs from every string.
\<close>

definition init_units :: "pystr \<Rightarrow> session_state \<Rightarrow> py_error + session_state" where
  "init_units selected_category st =
     (if st_from_unit st = None \<or> st_current_category st \<noteq> Some selected_category then
        (case units_of selected_category of
           Inl e \<Rightarrow> Inl e
         | Inr units \<Rightarrow>
             (case units of
                [] \<Rightarrow> Inl IndexError
              | first # others \<Rightarrow>
                  Inr (st\<lparr>st_from_unit := Some first,
                          st_to_unit := Some (if length units > 1 then units ! 1 else first),
                          st_current_category := Some selected_category\<rparr>)))
      else Inr st)"

text \<open>Lines 75-77.\<close>

definition to_options :: "pystr list \<Rightarrow> pystr \<Rightarrow> pystr list" where
  "to_options units from_unit = filter (\<lambda>unit. unit \<noteq> from_unit) units @ [from_unit]"

text \<open>Lines 80-83; \<open>prev_to\<close> is \<^verbatim>\<open>st.session_state.to_unit\<close>.\<close>

definition default_index :: "pystr list \<Rightarrow> pystr list \<Rightarrow> pystr \<Rightarrow> py_error + nat" where
  "default_index units to_opts prev_to =
     (if prev_to \<in> set units then
        (if prev_to \<in> set to_opts then list_index to_opts prev_to else Inr 0)
      else Inr 0)"

text \<open>
  Lines 47-90 of one run: the category the user has selected, the picks made in the two
  unit boxes (\<open>None\<close>: the box shows its default) and the session state of the previous
  run. Reading an attribute that was never set raises \<^verbatim>\<open>AttributeError\<close>.
\<close>

definition select_units ::
  "pystr \<Rightarrow> pystr option \<Rightarrow> pystr option \<Rightarrow> session_state \<Rightarrow> py_error + session_state" where
  "select_units selected_category pick_from pick_to st0 =
     (case init_units selected_category st0 of
        Inl e \<Rightarrow> Inl e
      | Inr st1 \<Rightarrow>
     (case units_of selected_category of
        Inl e \<Rightarrow> Inl e
      | Inr units \<Rightarrow>
     (case st_from_unit st1 of
        None \<Rightarrow> Inl AttributeError
      | Some prev_from \<Rightarrow>
     (case list_index units prev_from of
        Inl e \<Rightarrow> Inl e
      | Inr i \<Rightarrow>
     (let from_unit = selectbox units i pick_from;
          st2 = st1\<lparr>st_from_unit := Some from_unit\<rparr>;
          to_opts = to_options units from_unit
      in (case st_to_unit st2 of
            None \<Rightarrow> Inl AttributeError
          | Some prev_to \<Rightarrow>
         (case default_index units to_opts prev_to of
            Inl e \<Rightarrow> Inl e
          | Inr idx \<Rightarrow>
              Inr (st2\<lparr>st_to_unit := Some (selectbox to_opts idx pick_to)\<rparr>))))))))"

subsection \<open>Python values\<close>

text \<open>
  What \<^verbatim>\<open>response.json()\<close> can return, and what the dispatcher is called with. A float is
  carried as the text \<^verbatim>\<open>repr\<close> gives it, which is also what \<^verbatim>\<open>str\<close>, an f-string and
  \<^verbatim>\<open>json.dumps\<close> print; no float arithmetic occurs in the program. A decoded JSON object
  is a \<^verbatim>\<open>dict\<close>, given by its items; keys are unique.
\<close>

datatype atom = PyNone | PyBool bool | PyInt int | PyFloat pystr | PyStr pystr

datatype pyval = Atom atom | PyList "pyval list" | PyDict "(pystr \<times> pyval) list"

fun str_nat :: "nat \<Rightarrow> pystr" where
  "str_nat n = (if n < 10 then [48 + n] else str_nat (n div 10) @ [48 + n mod 10])"

declare str_nat.simps [simp del]

definition str_int :: "int \<Rightarrow> pystr" where
  "str_int i = (if i < 0 then ascii ''-'' @ str_nat (nat (- i)) else str_nat (nat i))"

text \<open>\<^verbatim>\<open>str(x)\<close>, which is also how an f-string formats \<^verbatim>\<open>{x}\<close>.\<close>

fun py_str :: "atom \<Rightarrow> pystr" where
  "py_str PyNone = ascii ''None''"
| "py_str (PyBool b) = (if b then ascii ''True'' else ascii ''False'')"
| "py_str (PyInt i) = str_int i"
| "py_str (PyFloat r) = r"
| "py_str (PyStr s) = s"

fun type_name :: "pyval \<Rightarrow> pystr" where
  "type_name (Atom PyNone) = ascii ''NoneType''"
| "type_name (Atom (PyBool b)) = ascii ''bool''"
| "type_name (Atom (PyInt i)) = ascii ''int''"
| "type_name (Atom (PyFloat r)) = ascii ''float''"
| "type_name (Atom (PyStr s)) = ascii ''str''"
| "type_name (PyList xs) = ascii ''list''"
| "type_name (PyDict d) = ascii ''dict''"

text \<open>An exception caught by \<^verbatim>\<open>except Exception as e\<close>; \<open>message\<close> is \<^verbatim>\<open>str(e)\<close>.\<close>

datatype exception = Exception (message: pystr)

text \<open>
  \<^verbatim>\<open>x.get(key, default)\<close>: defined on a \<^verbatim>\<open>dict\<close>; any other JSON value has no such
  attribute.
\<close>

definition dict_get :: "pyval \<Rightarrow> pystr \<Rightarrow> pyval \<Rightarrow> exception + pyval" where
  "dict_get x key dflt =
     (case x of
        PyDict d \<Rightarrow> Inr (case map_of d key of None \<Rightarrow> dflt | Some v \<Rightarrow> v)
      | _ \<Rightarrow> Inl (Exception (ascii [CHR 0x27] @ type_name x @ ascii [CHR 0x27] @
                  ascii '' object has no attribute '' @
                  ascii [CHR 0x27] @ ascii ''get'' @ ascii [CHR 0x27])))"

subsection \<open>Conversion request dispatcher (lines 93-131)\<close>

definition newline :: pystr where "newline = [0x0A]"

text \<open>Lines 101-106.\<close>

definition prompt_of :: "atom \<Rightarrow> pystr \<Rightarrow> pystr \<Rightarrow> pystr \<Rightarrow> pystr" where
  "prompt_of value from_unit to_unit category =
     newline @
     ascii ''    You are a helpful and friendly unit converter assistant. '' @ newline @
     ascii ''    Please convert '' @ py_str value @ ascii '' '' @ from_unit @
       ascii '' to '' @ to_unit @ ascii '' in the category of '' @ category @ ascii ''.'' @
       newline @
     ascii ''    Respond in a conversational tone as if speaking to a friend. '' @ newline @
     ascii ''    Include the numeric result and a brief explanation of how the conversion works.'' @
       newline @
     ascii ''    ''"

text \<open>Lines 108-115.\<close>

definition payload_of :: "pystr \<Rightarrow> pyval" where
  "payload_of prompt =
     PyDict
      [(ascii ''inputs'', Atom (PyStr prompt)),
       (ascii ''parameters'',
          PyDict
           [(ascii ''temperature'', Atom (PyFloat (ascii ''0.7''))),
            (ascii ''max_new_tokens'', Atom (PyInt 150)),
            (ascii ''return_full_text'', Atom (PyBool False))])]"

text \<open>
  The arguments of \<^verbatim>\<open>requests.post\<close>. \<open>data\<close> is the payload that \<^verbatim>\<open>json.dumps\<close>
  serialises.
\<close>

record request =
  url :: pystr
  headers :: "(pystr \<times> pystr) list"
  data :: pyval

definition request_of ::
  "atom \<Rightarrow> pystr \<Rightarrow> pystr \<Rightarrow> pystr \<Rightarrow> pystr \<Rightarrow> atom \<Rightarrow> request" where
  "request_of value from_unit to_unit category model api_key =
     \<lparr>url = ascii ''https://api-inference.huggingface.co/models/'' @ model,
      headers =
        [(ascii ''Authorization'', ascii ''Bearer '' @ py_str api_key),
         (ascii ''Content-Type'', ascii ''application/json'')],
      data = payload_of (prompt_of value from_unit to_unit category)\<rparr>"

text \<open>
  What the network does with a request is outside the program: \<^verbatim>\<open>requests.post\<close> raises,
  or it returns a response whose \<^verbatim>\<open>.json()\<close> raises, or the body decodes to a value.
\<close>

datatype http_outcome = PostRaised exception | JsonRaised exception | Decoded pyval

text \<open>Lines 121-128.\<close>

definition extract_text :: "pyval \<Rightarrow> exception + pyval" where
  "extract_text response_json =
     (case response_json of
        PyList items \<Rightarrow>
          (case items of
             [] \<Rightarrow> Inl (Exception (ascii ''list index out of range''))
           | first # others \<Rightarrow> dict_get first (ascii ''generated_text'') (Atom (PyStr [])))
      | PyDict d \<Rightarrow> dict_get response_json (ascii ''generated_text'') (Atom (PyStr []))
      | Atom a \<Rightarrow> Inr (Atom (PyStr (py_str a))))"

text \<open>The body of the \<^verbatim>\<open>try\<close>, lines 118-128.\<close>

definition try_body :: "http_outcome \<Rightarrow> exception + pyval" where
  "try_body outcome =
     (case outcome of
        PostRaised e \<Rightarrow> Inl e
      | JsonRaised e \<Rightarrow> Inl e
      | Decoded response_json \<Rightarrow> extract_text response_json)"

definition get_conversion_response ::
  "(request \<Rightarrow> http_outcome) \<Rightarrow> atom \<Rightarrow> pystr \<Rightarrow> pystr \<Rightarrow> pystr \<Rightarrow> pystr \<Rightarrow> atom \<Rightarrow> pyval" where
  "get_conversion_response post value from_unit to_unit category model api_key =
     (case try_body (post (request_of value from_unit to_unit category model api_key)) of
        Inr result_text \<Rightarrow> result_text
      | Inl e \<Rightarrow> Atom (PyStr (ascii ''Sorry, I encountered an error: '' @ message e)))"

subsection \<open>Conversion history (lines 134-156)\<close>

text \<open>
  The block is modelled for a response that is text, as \<^verbatim>\<open>get_conversion_response\<close> returns
  whenever the service sends a text \<^verbatim>\<open>generated_text\<close> and on every caught failure.

  Line 150 is a conditional expression: everything to the left of \<^verbatim>\<open>if\<close> is its first
  branch.
\<close>

definition history_entry :: "pystr \<Rightarrow> pystr \<Rightarrow> pystr" where
  "history_entry query response =
     (if length response > 100
      then query @ ascii '' '' @ rightwards_arrow @ ascii '' '' @ take 100 response @ ascii ''...''
      else response)"

definition history_of :: "session_state \<Rightarrow> pystr list" where
  "history_of st = (case st_conversion_history st of None \<Rightarrow> [] | Some h \<Rightarrow> h)"

text \<open>
  Lines 147-154. Line 148 creates the empty list when the attribute is absent, so the
  attribute is set after the block on either branch. \<^verbatim>\<open>insert(0, x)\<close> puts \<open>x\<close> in front,
  \<^verbatim>\<open>pop()\<close> drops the last entry.
\<close>

definition store_in_history :: "pystr \<Rightarrow> session_state \<Rightarrow> session_state" where
  "store_in_history entry st =
     (let history = history_of st in
      if entry \<notin> set history then
        (let inserted = entry # history in
         st\<lparr>st_conversion_history :=
              Some (if length inserted > 5 then butlast inserted else inserted)\<rparr>)
      else st\<lparr>st_conversion_history := Some history\<rparr>)"

text \<open>Lines 134-156 with the response text in hand. An empty string is falsy.\<close>

definition convert_clicked ::
  "atom \<Rightarrow> pystr \<Rightarrow> pystr \<Rightarrow> pystr \<Rightarrow> session_state \<Rightarrow> session_state" where
  "convert_clicked value from_unit to_unit response st =
     (if value \<noteq> PyNone \<and> from_unit \<noteq> [] \<and> to_unit \<noteq> [] then
        (let query = py_str value @ ascii '' '' @ from_unit @ ascii '' to '' @ to_unit
         in store_in_history (history_entry query response) st)
      else st)"

subsection \<open>Runs of the script\<close>

text \<open>
  The session states the program can be in: the empty state of a new session, and what a
  run of the selection block or a click on Convert makes of such a state. A click may
  come with any value, units and response text.
\<close>

inductive reachable :: "session_state \<Rightarrow> bool" where
  fresh: "reachable fresh_session"
| selected:
    "reachable st \<Longrightarrow> select_units selected_category pick_from pick_to st = Inr st' \<Longrightarrow>
     reachable st'"
| converted:
    "reachable st \<Longrightarrow> reachable (convert_clicked value from_unit to_unit response st)"

subsection \<open>Comparing text without regard to case\<close>

text \<open>
  Lower-casing of the letters A to Z, which is what \<^verbatim>\<open>str.lower\<close> does on ASCII text. It
  is used to state that a prompt contains a phrase case-insensitively; the program itself
  never lower-cases anything.
\<close>

definition lower :: "pystr \<Rightarrow> pystr" where
  "lower s = map (\<lambda>c. if 65 \<le> c \<and> c \<le> 90 then c + 32 else c) s"

subsection \<open>The field the extraction reads\<close>

text \<open>
  The \<^verbatim>\<open>generated_text\<close> entry of a decoded JSON object, the empty string when the object
  has no such key. It names what the extraction is expected to return.
\<close>

definition generated_text_of :: "(pystr \<times> pyval) list \<Rightarrow> pyval" where
  "generated_text_of d =
     (case map_of d (ascii ''generated_text'') of None \<Rightarrow> Atom (PyStr []) | Some v \<Rightarrow> v)"

subsection \<open>What a returned value and a sent request are checked for\<close>


text \<open>
  A request whose JSON body has a text under \<^verbatim>\<open>inputs\<close> that contains the phrase when case
  is ignored, and under \<^verbatim>\<open>parameters\<close> the temperature 0.7 and max_new_tokens 150.
\<close>

definition request_carries :: "pystr \<Rightarrow> request \<Rightarrow> bool" where
  "request_carries phrase request =
     (case data request of
        PyDict body \<Rightarrow>
          (case map_of body (ascii ''inputs'') of
             Some (Atom (PyStr prompt)) \<Rightarrow> sublist (lower phrase) (lower prompt)
           | _ \<Rightarrow> False) \<and>
          (case map_of body (ascii ''parameters'') of
             Some (PyDict parameters) \<Rightarrow>
               map_of parameters (ascii ''temperature'') = Some (Atom (PyFloat (ascii ''0.7''))) \<and>
               map_of parameters (ascii ''max_new_tokens'') = Some (Atom (PyInt 150))
           | _ \<Rightarrow> False)
      | _ \<Rightarrow> False)"

text \<open>
  A service to call the dispatcher with: it answers with the text \<open>reply\<close> when the
  request it receives carries the phrase and the parameters, and refuses the connection
  otherwise. What the dispatcher returns then tells which request it has sent.
\<close>

definition expecting :: "pystr \<Rightarrow> pystr \<Rightarrow> request \<Rightarrow> http_outcome" where
  "expecting phrase reply request =
     (if request_carries phrase request
      then Decoded (PyDict [(ascii ''generated_text'', Atom (PyStr reply))])
      else PostRaised (Exception (ascii ''unexpected request'')))"

section \<open>Properties\<close>

subsection \<open>Auxiliary facts\<close>

lemma unit_categories_cases:
  assumes "map_of unit_categories C = Some units"
  shows "distinct units \<and> 2 \<le> length units"
  using assms
  by (auto simp: unit_categories_def ascii_def degree_sign_def superscript_two_def
        superscript_three_def split: if_splits)

lemma list_index_member:
  "x \<in> set xs \<Longrightarrow> \<exists>i. list_index xs x = Inr i \<and> i < length xs \<and> xs ! i = x"
  by (induction xs) auto

lemma filter_neq_removeAll: "filter (\<lambda>y. y \<noteq> u) xs = removeAll u xs"
  by (induction xs) auto

lemma to_options_general:
  assumes "distinct units" "u \<in> set units"
  shows "to_options units u = removeAll u units @ [u]"
    and "length (to_options units u) = length units"
    and "distinct (to_options units u)"
    and "set (to_options units u) = set units"
proof -
  show "to_options units u = removeAll u units @ [u]"
    by (simp add: to_options_def filter_neq_removeAll)
  have "length (removeAll u units) = length units - 1"
    using assms by (simp add: distinct_remove1_removeAll [symmetric] length_remove1)
  moreover have "0 < length units"
    using assms(2) by (cases units) auto
  ultimately show "length (to_options units u) = length units"
    by (simp add: to_options_def filter_neq_removeAll)
  show "distinct (to_options units u)"
    using assms by (simp add: to_options_def)
  show "set (to_options units u) = set units"
    using assms by (auto simp: to_options_def)
qed

text \<open>
  The previous to-unit is always among the candidates, so the inner \<^verbatim>\<open>else 0\<close> of line 81
  is never taken and the default is the previous to-unit itself.
\<close>

lemma default_index_keeps:
  assumes "distinct units" "u \<in> set units" "t \<in> set units"
  shows "\<exists>i. default_index units (to_options units u) t = Inr i \<and> to_options units u ! i = t"
proof -
  have member: "t \<in> set (to_options units u)"
    using assms to_options_general(4) [of units u] by simp
  then obtain i where "list_index (to_options units u) t = Inr i" "to_options units u ! i = t"
    using list_index_member by metis
  with assms member show ?thesis
    by (simp add: default_index_def)
qed

lemma default_index_first:
  assumes "distinct units" "u \<in> set units" "2 \<le> length units" "t \<notin> set units"
  shows "default_index units (to_options units u) t = Inr 0"
    and "to_options units u ! 0 \<in> set units"
    and "to_options units u ! 0 \<noteq> u"
proof -
  show "default_index units (to_options units u) t = Inr 0"
    using assms by (simp add: default_index_def)
  have "length (removeAll u units) = length units - 1"
    using assms by (simp add: distinct_remove1_removeAll [symmetric] length_remove1)
  with assms(3) have ne: "removeAll u units \<noteq> []"
    by auto
  then have "to_options units u ! 0 = removeAll u units ! 0"
    by (simp add: to_options_def filter_neq_removeAll nth_append)
  moreover have "removeAll u units ! 0 \<in> set (removeAll u units)"
    using ne by (simp del: set_removeAll)
  ultimately show "to_options units u ! 0 \<in> set units" and "to_options units u ! 0 \<noteq> u"
    by auto
qed

lemma history_of_store:
  "history_of (store_in_history entry st) =
     (if entry \<in> set (history_of st) then history_of st
      else if 5 \<le> length (history_of st) then entry # butlast (history_of st)
      else entry # history_of st)"
  by (cases "history_of st") (auto simp: store_in_history_def history_of_def Let_def)

lemma store_in_history_present:
  "entry \<in> set (history_of st) \<Longrightarrow> store_in_history entry st = st"
  by (auto simp: store_in_history_def history_of_def Let_def split: option.splits)

lemma select_units_history:
  "select_units selected_category pick_from pick_to st = Inr st' \<Longrightarrow>
   history_of st' = history_of st"
  by (auto simp: select_units_def init_units_def history_of_def Let_def
           split: sum.splits option.splits if_splits list.splits)

lemma convert_clicked_history:
  "history_of (convert_clicked value from_unit to_unit response st) = history_of st \<or>
   (\<exists>entry. history_of (convert_clicked value from_unit to_unit response st) =
              history_of (store_in_history entry st))"
  by (auto simp: convert_clicked_def Let_def)

lemma reachable_history_length: "reachable st \<Longrightarrow> length (history_of st) \<le> 5"
proof (induction rule: reachable.induct)
  case fresh
  show ?case
    by (simp add: fresh_session_def history_of_def)
next
  case (selected st selected_category pick_from pick_to st')
  then show ?case
    by (simp add: select_units_history)
next
  case (converted st v from_unit to_unit response)
  then show ?case
    using convert_clicked_history [of v from_unit to_unit response st]
    by (auto simp: history_of_store)
qed

lemma reachable_history_distinct: "reachable st \<Longrightarrow> distinct (history_of st)"
proof (induction rule: reachable.induct)
  case fresh
  show ?case
    by (simp add: fresh_session_def history_of_def)
next
  case (selected st selected_category pick_from pick_to st')
  then show ?case
    by (simp add: select_units_history)
next
  case (converted st v from_unit to_unit response)
  then show ?case
    using convert_clicked_history [of v from_unit to_unit response st]
    by (auto simp: history_of_store distinct_butlast dest: in_set_butlastD)
qed

lemma lower_append: "lower (xs @ ys) = lower xs @ lower ys"
  by (simp add: lower_def)

lemma str_int_5: "str_int 5 = ascii ''5''"
  by (simp add: str_int_def str_nat.simps ascii_def)

lemma prompt_contains:
  "sublist (lower (ascii ''convert '' @ py_str value @ ascii '' '' @ from_unit @ ascii '' to '' @ to_unit))
     (lower (prompt_of value from_unit to_unit category))"
proof -
  have split: "ascii ''    Please convert '' = ascii ''    Please '' @ ascii ''convert ''"
    by (simp add: ascii_def)
  have "prompt_of value from_unit to_unit category =
          (newline @
           ascii ''    You are a helpful and friendly unit converter assistant. '' @ newline @
           ascii ''    Please '') @
          (ascii ''convert '' @ py_str value @ ascii '' '' @ from_unit @ ascii '' to '' @ to_unit) @
          (ascii '' in the category of '' @ category @ ascii ''.'' @ newline @
           ascii ''    Respond in a conversational tone as if speaking to a friend. '' @ newline @
           ascii ''    Include the numeric result and a brief explanation of how the conversion works.'' @
           newline @ ascii ''    '')"
    by (simp add: prompt_of_def split)
  then show ?thesis
    by (simp only: lower_append sublist_appendI)
qed

lemma request_of_carries:
  "request_carries
     (ascii ''convert '' @ py_str value @ ascii '' '' @ from_unit @ ascii '' to '' @ to_unit)
     (request_of value from_unit to_unit category model api_key)"
proof -
  have k1: "ascii ''inputs'' \<noteq> ascii ''parameters''"
    by (simp add: ascii_def)
  have k2: "ascii ''temperature'' \<noteq> ascii ''max_new_tokens''"
    by (simp add: ascii_def)
  show ?thesis
    using prompt_contains [of "value" from_unit to_unit category] k1 k2
    by (simp add: request_carries_def request_of_def payload_of_def)
qed

lemma phrase_absent:
  "\<not> sublist (lower (ascii ''convert 5 m to ft''))
       (lower (prompt_of (PyFloat (ascii ''5.0'')) (ascii ''m'') (ascii ''ft'') (ascii ''Length'')))"
  by code_simp

subsection \<open>Selection state\<close>

text \<open>
  Claim C1, as the code has it. In a category of the table, when the user picks the
  from-unit \<open>u\<close> and leaves the to-unit box alone, the run stores \<open>u\<close> as from-unit and
  keeps the previous to-unit whenever that is a unit of the category; only a previous
  to-unit from outside the category is replaced, by the first candidate. The stored
  to-unit therefore equals \<open>u\<close> exactly when the previous to-unit was \<open>u\<close>.
\<close>

theorem default_to_unit_after_from_change:
  assumes "map_of unit_categories C = Some units" and "u \<in> set units"
    and "st_current_category st = Some C"
    and "st_from_unit st = Some f" and "f \<in> set units"
    and "st_to_unit st = Some t"
  shows "select_units C (Some u) None st =
           Inr (st\<lparr>st_from_unit := Some u,
                   st_to_unit := Some (if t \<in> set units then t else to_options units u ! 0)\<rparr>) \<and>
         ((if t \<in> set units then t else to_options units u ! 0) = u \<longleftrightarrow> t = u)"
proof -
  from unit_categories_cases [OF assms(1)]
  have d: "distinct units" and l: "2 \<le> length units"
    by simp_all
  obtain i where i: "list_index units f = Inr i"
    using list_index_member [OF assms(5)] by blast
  have init: "init_units C st = Inr st"
    using assms by (simp add: init_units_def)
  show ?thesis
  proof (cases "t \<in> set units")
    case True
    from default_index_keeps [OF d assms(2) True] obtain k
      where k: "default_index units (to_options units u) t = Inr k" "to_options units u ! k = t"
      by blast
    have "select_units C (Some u) None st =
            Inr (st\<lparr>st_from_unit := Some u, st_to_unit := Some t\<rparr>)"
      using assms init i k
      by (simp add: select_units_def units_of_def selectbox_def)
    with True show ?thesis
      by simp
  next
    case False
    note z = default_index_first [OF d assms(2) l False]
    have "select_units C (Some u) None st =
            Inr (st\<lparr>st_from_unit := Some u, st_to_unit := Some (to_options units u ! 0)\<rparr>)"
      using assms init i z(1)
      by (simp add: select_units_def units_of_def selectbox_def)
    with False z(3) assms(2) show ?thesis
      by auto
  qed
qed

theorem default_to_unit_after_from_change_witness:
  "select_units (ascii ''Length'') (Some (ascii ''m'')) None
     \<lparr>st_from_unit = Some (ascii ''mm''), st_to_unit = Some (ascii ''cm''),
      st_current_category = Some (ascii ''Length''), st_conversion_history = None\<rparr> =
   Inr \<lparr>st_from_unit = Some (ascii ''m''), st_to_unit = Some (ascii ''cm''),
        st_current_category = Some (ascii ''Length''), st_conversion_history = None\<rparr>"
  using default_to_unit_after_from_change
    [of "ascii ''Length''"
        "[ascii ''mm'', ascii ''cm'', ascii ''m'', ascii ''km'',
          ascii ''in'', ascii ''ft'', ascii ''yd'', ascii ''mi'']"
        "ascii ''m''"
        "\<lparr>st_from_unit = Some (ascii ''mm''), st_to_unit = Some (ascii ''cm''),
          st_current_category = Some (ascii ''Length''), st_conversion_history = None\<rparr>"
        "ascii ''mm''" "ascii ''cm''"]
  by (simp add: unit_categories_def ascii_def)

text \<open>
  Claim C1 as stated fails. A new session that opens on Length holds from-unit mm and
  to-unit cm. Picking cm as from-unit then leaves to-unit cm, although the candidate list
  offers seven other units before the trailing cm.
\<close>

theorem default_to_unit_equals_from_unit:
  "select_units (ascii ''Length'') None None fresh_session =
     Inr \<lparr>st_from_unit = Some (ascii ''mm''), st_to_unit = Some (ascii ''cm''),
          st_current_category = Some (ascii ''Length''), st_conversion_history = None\<rparr> \<and>
   select_units (ascii ''Length'') (Some (ascii ''cm'')) None
     \<lparr>st_from_unit = Some (ascii ''mm''), st_to_unit = Some (ascii ''cm''),
      st_current_category = Some (ascii ''Length''), st_conversion_history = None\<rparr> =
     Inr \<lparr>st_from_unit = Some (ascii ''cm''), st_to_unit = Some (ascii ''cm''),
          st_current_category = Some (ascii ''Length''), st_conversion_history = None\<rparr> \<and>
   to_options [ascii ''mm'', ascii ''cm'', ascii ''m'', ascii ''km'',
               ascii ''in'', ascii ''ft'', ascii ''yd'', ascii ''mi''] (ascii ''cm'') =
     [ascii ''mm'', ascii ''m'', ascii ''km'', ascii ''in'', ascii ''ft'', ascii ''yd'',
      ascii ''mi'', ascii ''cm'']"
  by (simp add: select_units_def init_units_def units_of_def unit_categories_def
        fresh_session_def selectbox_def to_options_def default_index_def ascii_def Let_def)

text \<open>
  Claim C2. For a category of the table and a from-unit \<open>u\<close> of that category, the
  candidate list is the category with \<open>u\<close> removed, followed by \<open>u\<close>; it is as long as
  the category and has no duplicates.
\<close>

theorem to_options_candidates:
  assumes "map_of unit_categories C = Some units" and "u \<in> set units"
  shows "to_options units u = removeAll u units @ [u] \<and>
         length (to_options units u) = length units \<and>
         distinct (to_options units u)"
  using to_options_general [of units u] unit_categories_cases [OF assms(1)] assms(2)
  by simp

theorem to_options_candidates_witness:
  "to_options [ascii ''m/s'', ascii ''km/h'', ascii ''mph'', ascii ''knot''] (ascii ''km/h'') =
     [ascii ''m/s'', ascii ''mph'', ascii ''knot'', ascii ''km/h''] \<and>
   length (to_options [ascii ''m/s'', ascii ''km/h'', ascii ''mph'', ascii ''knot'']
     (ascii ''km/h'')) = 4 \<and>
   distinct (to_options [ascii ''m/s'', ascii ''km/h'', ascii ''mph'', ascii ''knot'']
     (ascii ''km/h''))"
  using to_options_candidates
    [of "ascii ''Speed''" "[ascii ''m/s'', ascii ''km/h'', ascii ''mph'', ascii ''knot'']"
        "ascii ''km/h''"]
  by (simp add: unit_categories_def ascii_def)

text \<open>
  Claim C3. Selecting a category \<open>C\<close> of the table that is not the stored current
  category resets the from-unit to the first unit of \<open>C\<close>, the to-unit to its second unit
  (to its first, had \<open>C\<close> a single unit), and stores \<open>C\<close> as current category. The rest of
  the run, with both unit boxes left alone, keeps that state.
\<close>

theorem init_units_resets:
  assumes "map_of unit_categories C = Some units"
    and "st_current_category st \<noteq> Some C"
  shows "init_units C st =
           Inr (st\<lparr>st_from_unit := Some (units ! 0),
                   st_to_unit := Some (if 2 \<le> length units then units ! 1 else units ! 0),
                   st_current_category := Some C\<rparr>) \<and>
         select_units C None None st = init_units C st"
proof -
  from unit_categories_cases [OF assms(1)]
  have d: "distinct units" and l: "2 \<le> length units"
    by simp_all
  then obtain first second others where units: "units = first # second # others"
    by (cases units; cases "tl units") auto
  have init: "init_units C st =
           Inr (st\<lparr>st_from_unit := Some first, st_to_unit := Some second,
                   st_current_category := Some C\<rparr>)"
    using assms units by (simp add: init_units_def units_of_def)
  have "first \<in> set units" "second \<in> set units"
    using units by simp_all
  from default_index_keeps [OF d this] obtain k
    where k: "default_index units (to_options units first) second = Inr k"
             "to_options units first ! k = second"
    by blast
  have "select_units C None None st = init_units C st"
    using assms(1) units k
    by (simp add: select_units_def init units_of_def selectbox_def)
  with init units show ?thesis
    by simp
qed

theorem init_units_resets_witness:
  "init_units (ascii ''Temperature'')
     \<lparr>st_from_unit = Some (ascii ''mm''), st_to_unit = Some (ascii ''cm''),
      st_current_category = Some (ascii ''Length''), st_conversion_history = None\<rparr> =
   Inr \<lparr>st_from_unit = Some (degree_sign @ ascii ''C''),
        st_to_unit = Some (degree_sign @ ascii ''F''),
        st_current_category = Some (ascii ''Temperature''), st_conversion_history = None\<rparr> \<and>
   select_units (ascii ''Temperature'') None None
     \<lparr>st_from_unit = Some (ascii ''mm''), st_to_unit = Some (ascii ''cm''),
      st_current_category = Some (ascii ''Length''), st_conversion_history = None\<rparr> =
   Inr \<lparr>st_from_unit = Some (degree_sign @ ascii ''C''),
        st_to_unit = Some (degree_sign @ ascii ''F''),
        st_current_category = Some (ascii ''Temperature''), st_conversion_history = None\<rparr>"
  using init_units_resets
    [of "ascii ''Temperature''"
        "[degree_sign @ ascii ''C'', degree_sign @ ascii ''F'', ascii ''K'']"
        "\<lparr>st_from_unit = Some (ascii ''mm''), st_to_unit = Some (ascii ''cm''),
          st_current_category = Some (ascii ''Length''), st_conversion_history = None\<rparr>"]
  by (simp add: unit_categories_def ascii_def)

subsection \<open>Conversion request dispatcher\<close>




text \<open>
  Claim C9, as the code has it. Called with a value, from-unit m, to-unit ft, category
  Length and the Mistral model, the dispatcher passes to \<^verbatim>\<open>requests.post\<close> a request with
  temperature 0.7 and max_new_tokens 150 whose prompt contains, when case is ignored,
  \<^verbatim>\<open>convert \<close>, the text of the value and \<^verbatim>\<open> m to ft\<close>: a service that answers only such a
  request is answered. The text of the float 5.0, which is what the number input hands
  over for 5, is \<^verbatim>\<open>5.0\<close>; that of the integer 5 is \<^verbatim>\<open>5\<close>.
\<close>

theorem prompt_and_parameters_sent:
  "get_conversion_response
     (expecting (ascii ''convert '' @ py_str value @ ascii '' m to ft'') reply)
     value (ascii ''m'') (ascii ''ft'') (ascii ''Length'')
     (ascii ''mistralai/Mistral-7B-Instruct-v0.2'') api_key = Atom (PyStr reply) \<and>
   py_str (PyFloat (ascii ''5.0'')) = ascii ''5.0'' \<and>
   py_str (PyInt 5) = ascii ''5''"
proof -
  have "ascii '' m to ft'' = ascii '' '' @ ascii ''m'' @ ascii '' to '' @ ascii ''ft''"
    by (simp add: ascii_def)
  then have "request_carries (ascii ''convert '' @ py_str value @ ascii '' m to ft'')
     (request_of value (ascii ''m'') (ascii ''ft'') (ascii ''Length'')
        (ascii ''mistralai/Mistral-7B-Instruct-v0.2'') api_key)"
    using request_of_carries [of "value" "ascii ''m''" "ascii ''ft''" "ascii ''Length''"
        "ascii ''mistralai/Mistral-7B-Instruct-v0.2''" api_key]
    by simp
  then show ?thesis
    by (simp add: get_conversion_response_def expecting_def try_body_def extract_text_def
          dict_get_def str_int_5)
qed

text \<open>
  Claim C9 as stated fails for the value the program passes. The number input has a float
  step, so 5 arrives as the float 5.0 and the prompt reads \<^verbatim>\<open>convert 5.0 m to ft\<close>: a
  service that waits for \<^verbatim>\<open>convert 5 m to ft\<close> is not served, and the phrase is not in
  the prompt.
\<close>

theorem float_value_prompt:
  "get_conversion_response (expecting (ascii ''convert 5 m to ft'') (ascii ''ok''))
     (PyFloat (ascii ''5.0'')) (ascii ''m'') (ascii ''ft'') (ascii ''Length'')
     (ascii ''mistralai/Mistral-7B-Instruct-v0.2'') PyNone =
     Atom (PyStr (ascii ''Sorry, I encountered an error: unexpected request'')) \<and>
   \<not> sublist (lower (ascii ''convert 5 m to ft''))
       (lower (prompt_of (PyFloat (ascii ''5.0'')) (ascii ''m'') (ascii ''ft'') (ascii ''Length'')))"
proof -
  have k1: "ascii ''inputs'' \<noteq> ascii ''parameters''"
    by (simp add: ascii_def)
  have "\<not> request_carries (ascii ''convert 5 m to ft'')
     (request_of (PyFloat (ascii ''5.0'')) (ascii ''m'') (ascii ''ft'') (ascii ''Length'')
        (ascii ''mistralai/Mistral-7B-Instruct-v0.2'') PyNone)"
    using phrase_absent by (simp add: request_carries_def request_of_def payload_of_def)
  moreover have "ascii ''Sorry, I encountered an error: '' @ ascii ''unexpected request'' =
      ascii ''Sorry, I encountered an error: unexpected request''"
    by (simp add: ascii_def)
  ultimately show ?thesis
    using phrase_absent
    by (simp add: get_conversion_response_def expecting_def try_body_def)
qed

text \<open>
  Claim C10. When the body decodes to an empty list, indexing element 0 raises
  \<^verbatim>\<open>IndexError\<close>, the handler catches it, and the dispatcher returns the error text, not
  the empty string.
\<close>

theorem empty_list_gives_error_text:
  assumes "post (request_of value from_unit to_unit category model api_key) = Decoded (PyList [])"
  shows "get_conversion_response post value from_unit to_unit category model api_key =
           Atom (PyStr (ascii ''Sorry, I encountered an error: list index out of range'')) \<and>
         get_conversion_response post value from_unit to_unit category model api_key \<noteq>
           Atom (PyStr [])"
  using assms
  by (simp add: get_conversion_response_def try_body_def extract_text_def ascii_def)

theorem empty_list_gives_error_text_witness:
  "get_conversion_response (\<lambda>request. Decoded (PyList []))
     (PyInt 5) (ascii ''m'') (ascii ''ft'') (ascii ''Length'')
     (ascii ''mistralai/Mistral-7B-Instruct-v0.2'') PyNone =
   Atom (PyStr (ascii ''Sorry, I encountered an error: list index out of range''))"
  using empty_list_gives_error_text [of "\<lambda>request. Decoded (PyList [])"
      "PyInt 5" "ascii ''m''" "ascii ''ft''" "ascii ''Length''"
      "ascii ''mistralai/Mistral-7B-Instruct-v0.2''" PyNone]
  by simp

text \<open>
  Claim C4, as the code has it. When the body decodes to a list whose element 0 is an
  object, or to an object, the dispatcher returns the \<^verbatim>\<open>generated_text\<close> field of that
  object, the empty string if the field is absent; when it decodes to anything that is
  neither a list nor an object, it returns \<^verbatim>\<open>str\<close> of it. A list whose element 0 is not
  an object has no \<^verbatim>\<open>get\<close>: the call raises and the dispatcher returns the error text.
\<close>

theorem extraction_policy:
  assumes "post (request_of value from_unit to_unit category model api_key) =
             Decoded response_json"
  shows "(\<forall>d others. response_json = PyList (PyDict d # others) \<longrightarrow>
            get_conversion_response post value from_unit to_unit category model api_key =
              generated_text_of d) \<and>
         (\<forall>d. response_json = PyDict d \<longrightarrow>
            get_conversion_response post value from_unit to_unit category model api_key =
              generated_text_of d) \<and>
         (\<forall>a. response_json = Atom a \<longrightarrow>
            get_conversion_response post value from_unit to_unit category model api_key =
              Atom (PyStr (py_str a))) \<and>
         (\<forall>x others. response_json = PyList (x # others) \<and> (\<forall>d. x \<noteq> PyDict d) \<longrightarrow>
            (\<exists>e. dict_get x (ascii ''generated_text'') (Atom (PyStr [])) = Inl e \<and>
                 get_conversion_response post value from_unit to_unit category model api_key =
                   Atom (PyStr (ascii ''Sorry, I encountered an error: '' @ message e))))"
proof -
  have "\<exists>e. dict_get x (ascii ''generated_text'') (Atom (PyStr [])) = Inl e \<and>
            get_conversion_response post value from_unit to_unit category model api_key =
              Atom (PyStr (ascii ''Sorry, I encountered an error: '' @ message e))"
    if "response_json = PyList (x # others)" "\<forall>d. x \<noteq> PyDict d" for x others
    using that assms
    by (cases x)
       (simp_all add: get_conversion_response_def try_body_def extract_text_def dict_get_def)
  then show ?thesis
    using assms
    by (simp add: get_conversion_response_def try_body_def extract_text_def dict_get_def
          generated_text_of_def)
qed

theorem extraction_policy_witness:
  "get_conversion_response
     (\<lambda>request. Decoded (PyList [PyDict [(ascii ''generated_text'', Atom (PyStr (ascii ''X'')))]]))
     (PyInt 5) (ascii ''m'') (ascii ''ft'') (ascii ''Length'')
     (ascii ''mistralai/Mistral-7B-Instruct-v0.2'') PyNone = Atom (PyStr (ascii ''X'')) \<and>
   get_conversion_response
     (\<lambda>request. Decoded (PyDict [(ascii ''generated_text'', Atom (PyStr (ascii ''Y'')))]))
     (PyInt 5) (ascii ''m'') (ascii ''ft'') (ascii ''Length'')
     (ascii ''mistralai/Mistral-7B-Instruct-v0.2'') PyNone = Atom (PyStr (ascii ''Y'')) \<and>
   get_conversion_response (\<lambda>request. Decoded (PyDict []))
     (PyInt 5) (ascii ''m'') (ascii ''ft'') (ascii ''Length'')
     (ascii ''mistralai/Mistral-7B-Instruct-v0.2'') PyNone = Atom (PyStr [])"
  using
    extraction_policy
      [of "\<lambda>request. Decoded (PyList [PyDict [(ascii ''generated_text'', Atom (PyStr (ascii ''X'')))]])"
          "PyInt 5" "ascii ''m''" "ascii ''ft''" "ascii ''Length''"
          "ascii ''mistralai/Mistral-7B-Instruct-v0.2''" PyNone
          "PyList [PyDict [(ascii ''generated_text'', Atom (PyStr (ascii ''X'')))]]"]
    extraction_policy
      [of "\<lambda>request. Decoded (PyDict [(ascii ''generated_text'', Atom (PyStr (ascii ''Y'')))])"
          "PyInt 5" "ascii ''m''" "ascii ''ft''" "ascii ''Length''"
          "ascii ''mistralai/Mistral-7B-Instruct-v0.2''" PyNone
          "PyDict [(ascii ''generated_text'', Atom (PyStr (ascii ''Y'')))]"]
    extraction_policy
      [of "\<lambda>request. Decoded (PyDict [])"
          "PyInt 5" "ascii ''m''" "ascii ''ft''" "ascii ''Length''"
          "ascii ''mistralai/Mistral-7B-Instruct-v0.2''" PyNone "PyDict []"]
  by (simp add: generated_text_of_def)

text \<open>
  Claim C4 as stated fails on a list whose element 0 is not an object: for the body
  \<^verbatim>\<open>["a"]\<close> the result is neither a \<^verbatim>\<open>generated_text\<close> field nor the empty string, but
  the error text.
\<close>

theorem extraction_of_text_list:
  "get_conversion_response (\<lambda>request. Decoded (PyList [Atom (PyStr (ascii ''a''))]))
     (PyInt 5) (ascii ''m'') (ascii ''ft'') (ascii ''Length'')
     (ascii ''mistralai/Mistral-7B-Instruct-v0.2'') PyNone =
   Atom (PyStr (ascii ''Sorry, I encountered an error: '' @ ascii [CHR 0x27] @ ascii ''str'' @
     ascii [CHR 0x27] @ ascii '' object has no attribute '' @ ascii [CHR 0x27] @ ascii ''get'' @
     ascii [CHR 0x27])) \<and>
   get_conversion_response (\<lambda>request. Decoded (PyList [Atom (PyStr (ascii ''a''))]))
     (PyInt 5) (ascii ''m'') (ascii ''ft'') (ascii ''Length'')
     (ascii ''mistralai/Mistral-7B-Instruct-v0.2'') PyNone \<noteq> Atom (PyStr [])"
  by (simp add: get_conversion_response_def try_body_def extract_text_def dict_get_def ascii_def)

subsection \<open>Conversion history\<close>

text \<open>
  Claim C6. In every session state the program can reach the history has at most 5
  entries. When it has 5 and an entry that is not among them is stored, the new entry goes
  in front and the entry at the far end, the oldest, is dropped.
\<close>

theorem history_at_most_five:
  assumes "reachable st"
  shows "length (history_of st) \<le> 5 \<and>
         (length (history_of st) = 5 \<and> entry \<notin> set (history_of st) \<longrightarrow>
            history_of (store_in_history entry st) = entry # butlast (history_of st) \<and>
            last (history_of st) \<notin> set (history_of (store_in_history entry st)))"
proof -
  have "last (history_of st) \<notin> set (entry # butlast (history_of st))"
    if "length (history_of st) = 5" "entry \<notin> set (history_of st)"
  proof -
    from that(1) have ne: "history_of st \<noteq> []"
      by auto
    then have "history_of st = butlast (history_of st) @ [last (history_of st)]"
      by simp
    with reachable_history_distinct [OF assms]
    have "last (history_of st) \<notin> set (butlast (history_of st))"
      by (metis distinct_append disjoint_iff list.set_intros(1))
    moreover have "last (history_of st) \<noteq> entry"
      using ne that(2) last_in_set by metis
    ultimately show ?thesis
      by simp
  qed
  with reachable_history_length [OF assms] show ?thesis
    by (auto simp: history_of_store)
qed

theorem history_at_most_five_witness:
  "length (history_of
     (foldr (convert_clicked (PyInt 5) (ascii ''m'') (ascii ''ft''))
        [ascii ''e'', ascii ''d'', ascii ''c'', ascii ''b'', ascii ''a''] fresh_session)) = 5 \<and>
   history_of (store_in_history (ascii ''f'')
     (foldr (convert_clicked (PyInt 5) (ascii ''m'') (ascii ''ft''))
        [ascii ''e'', ascii ''d'', ascii ''c'', ascii ''b'', ascii ''a''] fresh_session)) =
     [ascii ''f'', ascii ''e'', ascii ''d'', ascii ''c'', ascii ''b'']"
proof -
  have r: "reachable
     (foldr (convert_clicked (PyInt 5) (ascii ''m'') (ascii ''ft''))
        [ascii ''e'', ascii ''d'', ascii ''c'', ascii ''b'', ascii ''a''] fresh_session)"
    by (simp add: reachable.converted reachable.fresh)
  have h: "history_of
     (foldr (convert_clicked (PyInt 5) (ascii ''m'') (ascii ''ft''))
        [ascii ''e'', ascii ''d'', ascii ''c'', ascii ''b'', ascii ''a''] fresh_session) =
     [ascii ''e'', ascii ''d'', ascii ''c'', ascii ''b'', ascii ''a'']"
    by (simp add: convert_clicked_def history_entry_def store_in_history_def history_of_def
          fresh_session_def Let_def ascii_def)
  have n: "ascii ''f'' \<notin> set [ascii ''e'', ascii ''d'', ascii ''c'', ascii ''b'', ascii ''a'']"
    by (simp add: ascii_def)
  show ?thesis
    using history_at_most_five [OF r, of "ascii ''f''"] n
    by (simp only: h) simp
qed

text \<open>
  Claim C7. In every session state the program can reach the history has no two equal
  entries, and a click on Convert whose entry is already in the history, at whatever
  position, leaves the session state as it was.
\<close>

theorem history_without_duplicates:
  assumes "reachable st"
  shows "distinct (history_of st) \<and>
         (history_entry (py_str value @ ascii '' '' @ from_unit @ ascii '' to '' @ to_unit)
            response \<in> set (history_of st) \<longrightarrow>
          convert_clicked value from_unit to_unit response st = st)"
  using reachable_history_distinct [OF assms]
  by (simp add: convert_clicked_def Let_def store_in_history_present)

theorem history_without_duplicates_witness:
  "convert_clicked (PyInt 5) (ascii ''m'') (ascii ''ft'') (ascii ''about 16.4 ft'')
     (convert_clicked (PyInt 5) (ascii ''m'') (ascii ''ft'') (ascii ''about 16.4 ft'')
        fresh_session) =
   convert_clicked (PyInt 5) (ascii ''m'') (ascii ''ft'') (ascii ''about 16.4 ft'') fresh_session \<and>
   distinct (history_of
     (convert_clicked (PyInt 5) (ascii ''m'') (ascii ''ft'') (ascii ''about 16.4 ft'')
        fresh_session))"
proof -
  have r: "reachable
     (convert_clicked (PyInt 5) (ascii ''m'') (ascii ''ft'') (ascii ''about 16.4 ft'')
        fresh_session)"
    by (simp add: reachable.converted reachable.fresh)
  have h: "history_of
     (convert_clicked (PyInt 5) (ascii ''m'') (ascii ''ft'') (ascii ''about 16.4 ft'')
        fresh_session) = [ascii ''about 16.4 ft'']"
    by (simp add: convert_clicked_def history_entry_def store_in_history_def history_of_def
          fresh_session_def Let_def ascii_def)
  have e: "history_entry (py_str (PyInt 5) @ ascii '' '' @ ascii ''m'' @ ascii '' to '' @ ascii ''ft'')
             (ascii ''about 16.4 ft'') = ascii ''about 16.4 ft''"
    by (simp add: history_entry_def ascii_def)
  show ?thesis
    using history_without_duplicates
      [OF r, of "PyInt 5" "ascii ''m''" "ascii ''ft''" "ascii ''about 16.4 ft''"]
    by (simp only: h e) simp
qed

text \<open>
  Claim C8 at a response of at most 100 characters. The conditional expression of line
  150 then yields the response alone: the entry stored for the query \<^verbatim>\<open>5.0 m to ft\<close>
  and the response \<^verbatim>\<open>Sorry, I encountered an error: timeout\<close> is that response, with no
  query in it.
\<close>

theorem short_response_entry_has_no_query:
  "history_of
     (convert_clicked (PyFloat (ascii ''5.0'')) (ascii ''m'') (ascii ''ft'')
        (ascii ''Sorry, I encountered an error: timeout'') fresh_session) =
   [ascii ''Sorry, I encountered an error: timeout'']"
  by (simp add: convert_clicked_def history_entry_def store_in_history_def history_of_def
        fresh_session_def Let_def ascii_def)

text \<open>A response of more than 100 characters is stored with the query, cut and marked.\<close>

lemma history_entry_long:
  "100 < length response \<Longrightarrow>
   history_entry query response =
     query @ ascii '' '' @ rightwards_arrow @ ascii '' '' @ take 100 response @ ascii ''...''"
  by (simp add: history_entry_def)

end
